theory Spec2Isabelle
  imports Main
begin

section \<open>Python values shared by the three modules\<close>

text \<open>
  Exceptions are values. \<open>NameError n\<close> is what CPython raises when the name \<open>n\<close> is
  neither a local, nor a module global, nor a builtin; \<open>ValueError\<close> is raised by a failed
  tuple unpacking and by \<^verbatim>\<open>int\<close> on a string that is no number; \<open>UnicodeDecodeError\<close> is
  raised by reading undecodable bytes from a text stream; \<open>SystemExit c\<close> is what
  \<^verbatim>\<open>sys.exit(c)\<close> raises.
\<close>

datatype error = NameError string | ValueError | UnicodeDecodeError | SystemExit int

section \<open>buildpacks/composable.py\<close>

subsection \<open>The classes the module imports\<close>

datatype bpclass =
    BuildPack
  | BaseImage
  | PythonBuildPack
  | PipfileBuildPack
  | CondaBuildPack
  | JuliaProjectTomlBuildPack
  | JuliaRequireBuildPack
  | DockerBuildPack
  | LegacyBinderDockerBuildPack
  | RBuildPack
  | NixBuildPack

text \<open>The list literal the \<^verbatim>\<open>for\<close> loop of \<^verbatim>\<open>detect\<close> walks (line 18).\<close>

definition catalog :: "bpclass list" where
  "catalog = [BaseImage, CondaBuildPack, PythonBuildPack, RBuildPack, JuliaProjectTomlBuildPack]"

subsection \<open>ComposableBuildPack.detect\<close>

text \<open>
  The state of a \<^verbatim>\<open>ComposableBuildPack\<close> is its attribute \<^verbatim>\<open>self.buildpacks\<close>, a list
  that \<^verbatim>\<open>__init__\<close> sets to \<^verbatim>\<open>[]\<close>. The detection predicates of the concrete classes
  live in other modules; \<open>det c\<close> stands for \<^verbatim>\<open>c().detect()\<close> on the repository at hand.

  Lines 18 to 24. When a class detects, it is appended (line 20) and the condition of the
  \<^verbatim>\<open>while\<close> on line 22 is evaluated. That condition reads the name \<^verbatim>\<open>buidpack\<close>, which is
  bound nowhere in the method, the module or the builtins (the loop variable is
  \<^verbatim>\<open>buildpack\<close>), so evaluating it raises \<^verbatim>\<open>NameError\<close>: the walk over \<^verbatim>\<open>__bases__\<close> on
  lines 23 and 24 is never entered. The function returns the exception, if any, together
  with \<^verbatim>\<open>self.buildpacks\<close> as the loop left it.
\<close>

fun detect_for :: "(bpclass \<Rightarrow> bool) \<Rightarrow> bpclass list \<Rightarrow> bpclass list \<Rightarrow> error option \<times> bpclass list" where
  "detect_for det [] bps = (None, bps)"
| "detect_for det (buildpack # rest) bps =
     (if det buildpack
      then (Some (NameError ''buidpack''), bps @ [buildpack])
      else detect_for det rest bps)"

text \<open>
  Lines 25 to 32. A non-empty \<^verbatim>\<open>self.buildpacks\<close> reaches line 26, whose keyword argument
  \<^verbatim>\<open>operator.attrgetter("_order")\<close> reads the name \<^verbatim>\<open>operator\<close>; the module never imports
  it, so line 26 raises \<^verbatim>\<open>NameError\<close> before \<^verbatim>\<open>sorted\<close> is called. An empty list skips the
  branch; the method then prints a header, prints nothing in the loop over the empty list,
  and returns \<^verbatim>\<open>True\<close>. The printed lines are not part of the model.

  The result pairs what the call raised or returned with \<^verbatim>\<open>self.buildpacks\<close> afterwards.
\<close>

definition detect :: "(bpclass \<Rightarrow> bool) \<Rightarrow> bpclass list \<Rightarrow> (error + bool) \<times> bpclass list" where
  "detect det bps0 =
     (case detect_for det catalog bps0 of
        (Some e, bps) \<Rightarrow> (Inl e, bps)
      | (None, bps) \<Rightarrow>
          if bps \<noteq> [] then (Inl (NameError ''operator''), bps)
          else (Inr True, bps))"

text \<open>A repository on which no class detects.\<close>

definition no_match :: "bpclass \<Rightarrow> bool" where
  "no_match c = False"

text \<open>A repository on which only \<^verbatim>\<open>PythonBuildPack\<close> detects.\<close>

definition only_python :: "bpclass \<Rightarrow> bool" where
  "only_python c = (c = PythonBuildPack)"

text \<open>A repository on which \<^verbatim>\<open>RBuildPack\<close> and \<^verbatim>\<open>CondaBuildPack\<close> detect.\<close>

definition r_and_conda :: "bpclass \<Rightarrow> bool" where
  "r_and_conda c = (c = RBuildPack \<or> c = CondaBuildPack)"

subsection \<open>The merged contract\<close>

text \<open>
  The getters of lines 34 to 98 read \<^verbatim>\<open>self.buildpacks\<close> as a list of buildpack instances
  and call the getter of the same name on each. An instance is modelled by what its
  getters return: sets of package names, lists of pairs (variable and value, or user and
  script), a list of paths, and dictionaries from a file name to a file name.
\<close>

record buildpack =
  packages :: "string set"
  base_packages :: "string set"
  build_env :: "(string \<times> string) list"
  env :: "(string \<times> string) list"
  path :: "string list"
  build_script_files :: "string \<rightharpoonup> string"
  build_scripts :: "(string \<times> string) list"
  preassemble_script_files :: "string \<rightharpoonup> string"
  preassemble_scripts :: "(string \<times> string) list"
  assemble_scripts :: "(string \<times> string) list"
  post_build_scripts :: "(string \<times> string) list"

text \<open>
  Each getter starts from an empty accumulator and updates it once per buildpack, in list
  order: \<^verbatim>\<open>|=\<close> on sets, \<^verbatim>\<open>+=\<close> on lists, \<^verbatim>\<open>dict.update\<close> on dictionaries (\<open>m ++ d\<close> keeps
  the entries of \<open>m\<close> whose key \<open>d\<close> does not have, and takes all entries of \<open>d\<close>).
\<close>

definition get_packages :: "buildpack list \<Rightarrow> string set" where
  "get_packages bps = foldl (\<lambda>pkgs b. pkgs \<union> packages b) {} bps"

definition get_base_packages :: "buildpack list \<Rightarrow> string set" where
  "get_base_packages bps = foldl (\<lambda>pkgs b. pkgs \<union> base_packages b) {} bps"

definition get_build_env :: "buildpack list \<Rightarrow> (string \<times> string) list" where
  "get_build_env bps = foldl (\<lambda>e b. e @ build_env b) [] bps"

definition get_env :: "buildpack list \<Rightarrow> (string \<times> string) list" where
  "get_env bps = foldl (\<lambda>e b. e @ env b) [] bps"

definition get_path :: "buildpack list \<Rightarrow> string list" where
  "get_path bps = foldl (\<lambda>p b. p @ path b) [] bps"

definition get_build_script_files :: "buildpack list \<Rightarrow> (string \<rightharpoonup> string)" where
  "get_build_script_files bps = foldl (\<lambda>scripts b. scripts ++ build_script_files b) Map.empty bps"

definition get_build_scripts :: "buildpack list \<Rightarrow> (string \<times> string) list" where
  "get_build_scripts bps = foldl (\<lambda>scripts b. scripts @ build_scripts b) [] bps"

definition get_preassemble_script_files :: "buildpack list \<Rightarrow> (string \<rightharpoonup> string)" where
  "get_preassemble_script_files bps =
     foldl (\<lambda>files b. files ++ preassemble_script_files b) Map.empty bps"

definition get_preassemble_scripts :: "buildpack list \<Rightarrow> (string \<times> string) list" where
  "get_preassemble_scripts bps = foldl (\<lambda>files b. files @ preassemble_scripts b) [] bps"

definition get_assemble_scripts :: "buildpack list \<Rightarrow> (string \<times> string) list" where
  "get_assemble_scripts bps = foldl (\<lambda>scripts b. scripts @ assemble_scripts b) [] bps"

definition get_post_build_scripts :: "buildpack list \<Rightarrow> (string \<times> string) list" where
  "get_post_build_scripts bps = foldl (\<lambda>scripts b. scripts @ post_build_scripts b) [] bps"

text \<open>
  The spec's merge of dictionaries, in its own words: last write wins. The value of a
  key is the one given by the last dictionary of the list that has the key; a key that no
  dictionary has is absent.
\<close>

definition last_write_wins :: "('k \<rightharpoonup> 'v) list \<Rightarrow> ('k \<rightharpoonup> 'v)" where
  "last_write_wins ds k =
     (let writers = filter (\<lambda>d. d k \<noteq> None) ds
      in if writers = [] then None else last writers k)"

section \<open>docker\_utils.py\<close>

subsection \<open>The command line of DockerCLI.build\<close>

text \<open>
  Lines 36 to 68 build the shell command from the keyword arguments. \<open>buildargs\<close> is the
  dictionary's items in iteration order; \<open>container_limits\<close> is a dictionary; an absent
  argument is \<open>None\<close>. \<^verbatim>\<open>if cache_from:\<close> is false for \<^verbatim>\<open>None\<close> and for the empty list.
\<close>

definition build_cmd ::
  "string option \<Rightarrow> (string \<times> string) list option \<Rightarrow> bool \<Rightarrow> bool \<Rightarrow>
   (string \<rightharpoonup> string) option \<Rightarrow> string list option \<Rightarrow> string \<Rightarrow> string" where
  "build_cmd tag buildargs forcerm rm container_limits cache_from tempdir =
     (let c = ''docker build --progress plain'';
          c = (case tag of None \<Rightarrow> c | Some t \<Rightarrow> c @ '' --tag '' @ t);
          c = (case buildargs of
                 None \<Rightarrow> c
               | Some items \<Rightarrow>
                   foldl (\<lambda>c (key, val). c @ '' --build-arg '' @ key @ ''='' @ val) c items);
          c = (if forcerm then c @ '' --force-rm'' else c);
          c = (if rm then c @ '' --rm'' else c);
          c = (case container_limits of
                 None \<Rightarrow> c
               | Some limits \<Rightarrow>
                   (case limits ''memlimit'' of
                      None \<Rightarrow> c
                    | Some m \<Rightarrow> c @ '' --memory '' @ m));
          c = (case cache_from of
                 None \<Rightarrow> c
               | Some [] \<Rightarrow> c
               | Some caches \<Rightarrow> foldl (\<lambda>c cache. c @ '' '' @ cache) (c @ '' --cache-from'') caches)
      in c @ '' '' @ tempdir)"

subsection \<open>The generator DockerCLI.build\<close>

text \<open>
  \<^verbatim>\<open>build\<close> contains \<^verbatim>\<open>yield\<close>, so calling it runs nothing: it returns a generator, and the
  body runs when the consumer asks for the next event. The events are the dictionaries
  \<^verbatim>\<open>{"stream": line}\<close> and \<^verbatim>\<open>{"error": line}\<close>.
\<close>

datatype event = Stream_event string | Error_event string

fun is_error :: "event \<Rightarrow> bool" where
  "is_error (Stream_event line) = False"
| "is_error (Error_event line) = True"

text \<open>
  What the child process shows the adapter. \<open>readline p i\<close> is the outcome of the call of
  \<^verbatim>\<open>p.stdout.readline()\<close> in loop iteration \<open>i\<close> (counted from 0): the pipe is opened in text
  mode (\<^verbatim>\<open>universal_newlines=True\<close>), so the call returns a string or raises
  \<^verbatim>\<open>UnicodeDecodeError\<close> on output that is not text in the locale's encoding. \<open>poll p i\<close> is
  what \<^verbatim>\<open>p.poll()\<close> returns in the same iteration: \<open>None\<close> while the child runs, its exit
  status afterwards. \<^verbatim>\<open>Popen\<close> keeps the status once it has seen it, so the \<^verbatim>\<open>p.poll()\<close>
  after the loop (line 86) returns what the last one in the loop returned.
\<close>

record child =
  readline :: "nat \<Rightarrow> error + string"
  poll :: "nat \<Rightarrow> int option"

text \<open>
  A child that writes the lines of text \<open>out\<close> and exits with status \<open>rc\<close>, scheduled so
  that the adapter's first \<open>k\<close> polls find it running. The pipe holds what the child
  wrote, so the calls of \<^verbatim>\<open>readline\<close> return the lines in order, and the empty string at
  end of file.
\<close>

definition child_of :: "string list \<Rightarrow> nat \<Rightarrow> int \<Rightarrow> child" where
  "child_of out k rc =
     \<lparr> readline = (\<lambda>i. Inr (if i < length out then out ! i else [])),
       poll = (\<lambda>i. if i < k then None else Some rc) \<rparr>"

text \<open>A child whose output cannot be decoded, still running at every poll.\<close>

definition undecodable_child :: child where
  "undecodable_child = \<lparr> readline = (\<lambda>i. Inl UnicodeDecodeError), poll = (\<lambda>i. None) \<rparr>"

text \<open>
  The generator's state: where its body is suspended, and the directories that exist.
  \<open>At_stream i\<close> is the \<^verbatim>\<open>yield\<close> of line 84 in iteration \<open>i\<close>, \<open>At_error\<close> the \<^verbatim>\<open>yield\<close> of
  line 88; a generator is \<open>Finished\<close> once its body has returned, raised or been closed.
\<close>

datatype position = Not_started | At_stream nat | At_error | Finished

record generator =
  position :: position
  dirs :: "string set"

definition new_generator :: "string set \<Rightarrow> generator" where
  "new_generator ds = \<lparr> position = Not_started, dirs = ds \<rparr>"

text \<open>
  One iteration of the \<^verbatim>\<open>while True\<close> loop (lines 80 to 84) and, when it breaks, lines 86
  to 90. The result is what the consumer's \<^verbatim>\<open>next\<close> gets: \<open>Inr (Some event)\<close> for a
  \<^verbatim>\<open>yield\<close>, \<open>Inr None\<close> for the end of the generator (\<^verbatim>\<open>StopIteration\<close>), \<open>Inl e\<close> for an
  exception that leaves the body.

  The iteration reads a line, then polls. An exception of \<^verbatim>\<open>readline\<close> leaves the \<^verbatim>\<open>with\<close>
  block, which waits for the child, and then the generator; line 90 is not reached. If
  the child is still running the line is yielded. If it has exited the loop breaks with
  the line just read in hand; a non-zero status yields it as the error event, a zero
  status leaves the \<^verbatim>\<open>with\<close> block, removes the temporary directory and ends the generator.
\<close>

definition loop_iteration ::
  "child \<Rightarrow> string \<Rightarrow> nat \<Rightarrow> generator \<Rightarrow> (error + event option) \<times> generator" where
  "loop_iteration p tempdir i g =
     (case readline p i of
        Inl e \<Rightarrow> (Inl e, g\<lparr>position := Finished\<rparr>)
      | Inr line \<Rightarrow>
          (case poll p i of
             None \<Rightarrow> (Inr (Some (Stream_event line)), g\<lparr>position := At_stream i\<rparr>)
           | Some rc \<Rightarrow>
               if rc \<noteq> 0 then (Inr (Some (Error_event line)), g\<lparr>position := At_error\<rparr>)
               else (Inr None, g\<lparr>position := Finished, dirs := dirs g - {tempdir}\<rparr>)))"

text \<open>
  \<^verbatim>\<open>next(gen)\<close>: run the body from where it is suspended to the next \<^verbatim>\<open>yield\<close> or to its
  end. The first call creates the temporary directory (\<^verbatim>\<open>mkdtemp\<close>, line 41, which returns
  \<open>tempdir\<close>), starts the child and enters the loop. Resuming after the error event leaves
  the \<^verbatim>\<open>with\<close> block and reaches \<^verbatim>\<open>shutil.rmtree(tempdir)\<close> on line 90. The call is one
  without an archive (\<^verbatim>\<open>fileobj=None\<close>), so lines 42 to 45 are skipped.
\<close>

definition next_event :: "child \<Rightarrow> string \<Rightarrow> generator \<Rightarrow> (error + event option) \<times> generator" where
  "next_event p tempdir g =
     (case position g of
        Not_started \<Rightarrow> loop_iteration p tempdir 0 (g\<lparr>dirs := insert tempdir (dirs g)\<rparr>)
      | At_stream i \<Rightarrow> loop_iteration p tempdir (Suc i) g
      | At_error \<Rightarrow> (Inr None, g\<lparr>position := Finished, dirs := dirs g - {tempdir}\<rparr>)
      | Finished \<Rightarrow> (Inr None, g))"

text \<open>
  \<^verbatim>\<open>gen.close()\<close>, which is also what dropping a suspended generator does: the exception
  \<^verbatim>\<open>GeneratorExit\<close> is raised at the \<^verbatim>\<open>yield\<close>, the \<^verbatim>\<open>with\<close> block waits for the child, and
  the exception leaves the body. Line 90 is after the \<^verbatim>\<open>with\<close> block and in no
  \<^verbatim>\<open>finally\<close>, so it does not run.
\<close>

definition gen_close :: "generator \<Rightarrow> generator" where
  "gen_close g = g\<lparr>position := Finished\<rparr>"

text \<open>
  A consumer that iterates to exhaustion (\<^verbatim>\<open>for event in build(...)\<close>), collecting the
  events: the result is the events in order, the exception that ended the iteration (if
  one did) and the generator's final state. The loop may run forever (a child that never
  exits): not returning is \<open>None\<close>.
\<close>

partial_function (option) drain ::
  "child \<Rightarrow> string \<Rightarrow> generator \<Rightarrow> event list \<Rightarrow> (event list \<times> error option \<times> generator) option" where
  "drain p tempdir g seen =
     (case next_event p tempdir g of
        (Inl e, g') \<Rightarrow> Some (seen, Some e, g')
      | (Inr None, g') \<Rightarrow> Some (seen, None, g')
      | (Inr (Some ev), g') \<Rightarrow> drain p tempdir g' (seen @ [ev]))"

text \<open>
  The call \<^verbatim>\<open>build(...)\<close> iterated to exhaustion, from a fresh generator. \<open>p\<close> is the child
  that the command of \<open>build_cmd\<close> starts, \<open>tempdir\<close> the name \<^verbatim>\<open>mkdtemp\<close> returns, \<open>ds\<close> the
  directories that exist before.
\<close>

definition build ::
  "child \<Rightarrow> string \<Rightarrow> string set \<Rightarrow> (event list \<times> error option \<times> generator) option" where
  "build p tempdir ds = drain p tempdir (new_generator ds) []"

text \<open>
  A consumer that asks for at most \<open>n\<close> events and then closes the generator; the result
  is as for \<open>drain\<close>.
\<close>

fun take_events ::
  "child \<Rightarrow> string \<Rightarrow> nat \<Rightarrow> generator \<Rightarrow> event list \<times> error option \<times> generator" where
  "take_events p tempdir 0 g = ([], None, gen_close g)"
| "take_events p tempdir (Suc n) g =
     (case next_event p tempdir g of
        (Inl e, g') \<Rightarrow> ([], Some e, g')
      | (Inr None, g') \<Rightarrow> ([], None, g')
      | (Inr (Some ev), g') \<Rightarrow>
          (case take_events p tempdir n g' of (evs, e, g'') \<Rightarrow> (ev # evs, e, g'')))"

section \<open>\_\_main\_\_.py\<close>

subsection \<open>String methods\<close>

text \<open>
  \<^verbatim>\<open>s.partition(sep)\<close> for a one-character separator: the text before the first separator
  and the text after it (both are the whole string and the empty string when there is no
  separator).
\<close>

definition str_partition :: "char \<Rightarrow> string \<Rightarrow> string \<times> string" where
  "str_partition sep s = (takeWhile (\<lambda>c. c \<noteq> sep) s, drop 1 (dropWhile (\<lambda>c. c \<noteq> sep) s))"

text \<open>\<^verbatim>\<open>s.split(sep)\<close> for a one-character separator.\<close>

fun str_split :: "char \<Rightarrow> string \<Rightarrow> string list" where
  "str_split sep [] = [[]]"
| "str_split sep (c # cs) =
     (if c = sep then [] # str_split sep cs
      else (case str_split sep cs of [] \<Rightarrow> [[c]] | w # ws \<Rightarrow> (c # w) # ws))"

text \<open>
  \<^verbatim>\<open>s.isnumeric()\<close> and \<^verbatim>\<open>int(s)\<close>. A character of the model is a code point below 256.
  \<^verbatim>\<open>isnumeric\<close> holds of a non-empty string whose characters all have a numeric value: in
  this range the ten decimal digits and the code points B2, B3, B9 (superscript two,
  three, one) and BC, BD, BE (the fractions a quarter, a half, three quarters).
  \<^verbatim>\<open>int\<close>, called on a string that \<^verbatim>\<open>isnumeric\<close> accepts, returns the value of a string of
  decimal digits and raises \<^verbatim>\<open>ValueError\<close> when a character is not a decimal digit
  (the interpreter is one without a limit on the number of digits).
\<close>

definition is_decimal :: "char \<Rightarrow> bool" where
  "is_decimal c = (c \<in> set ''0123456789'')"

definition is_numeric_char :: "char \<Rightarrow> bool" where
  "is_numeric_char c =
     (is_decimal c \<or> c \<in> set [CHR 0xB2, CHR 0xB3, CHR 0xB9, CHR 0xBC, CHR 0xBD, CHR 0xBE])"

definition isnumeric :: "string \<Rightarrow> bool" where
  "isnumeric s = (s \<noteq> [] \<and> list_all is_numeric_char s)"

definition int_of_digits :: "string \<Rightarrow> int" where
  "int_of_digits s = foldl (\<lambda>n c. 10 * n + (of_char c - 48)) 0 s"

definition int_of_str :: "string \<Rightarrow> error + int" where
  "int_of_str s = (if list_all is_decimal s then Inr (int_of_digits s) else Inl ValueError)"

subsection \<open>MimicDockerEnvHandling\<close>

text \<open>
  \<^verbatim>\<open>__call__\<close> (lines 44 to 60) with the process environment \<open>environ\<close> (\<^verbatim>\<open>os.environ\<close>), the
  list \<open>dest\<close> that \<^verbatim>\<open>getattr(namespace, self.dest)\<close> holds, and the option's argument
  \<open>values\<close>; the result is the list afterwards. The \<^verbatim>\<open>KeyError\<close> of a missing variable is
  caught on line 52 and the call returns without appending.
\<close>

definition MimicDockerEnvHandling_call :: "(string \<rightharpoonup> string) \<Rightarrow> string list \<Rightarrow> string \<Rightarrow> string list" where
  "MimicDockerEnvHandling_call environ dest values =
     (if CHR ''='' \<notin> set values then
        (case environ values of
           None \<Rightarrow> dest
         | Some v \<Rightarrow> dest @ [values @ ''='' @ v])
      else dest @ [values])"

subsection \<open>The parsed arguments\<close>

text \<open>
  The namespace that \<^verbatim>\<open>get_argparser().parse_args(argv)\<close> returns, one field per
  \<^verbatim>\<open>add_argument\<close> of lines 69 to 236 (\<open>arg_run\<close> is \<^verbatim>\<open>args.run\<close>, and so on). An option
  without a default is \<open>None\<close> when it is not given.
\<close>

record args =
  arg_config :: string
  arg_json_logs :: bool
  arg_repo :: string
  arg_image_name :: "string option"
  arg_ref :: "string option"
  arg_debug :: bool
  arg_build :: bool
  arg_build_memory_limit :: "string option"
  arg_cmd :: "string list"
  arg_run :: bool
  arg_ports :: "string list option"
  arg_all_ports :: bool
  arg_clean :: bool
  arg_push :: bool
  arg_volumes :: "string list"
  arg_user_id :: "int option"
  arg_user_name :: "string option"
  arg_environment :: "string list"
  arg_editable :: bool
  arg_target_repo_dir :: "string option"
  arg_appendix :: "string option"
  arg_labels :: "string list"
  arg_build_args :: "string list"
  arg_subdir :: "string option"
  arg_version :: bool
  arg_cache_from :: "string list"
  arg_engine :: "string option"

text \<open>The namespace for a command line that gives the repository and nothing else.\<close>

definition default_args :: "string \<Rightarrow> args" where
  "default_args r =
     \<lparr> arg_config = ''repo2docker_config.py'', arg_json_logs = False, arg_repo = r,
       arg_image_name = None, arg_ref = None, arg_debug = False, arg_build = True,
       arg_build_memory_limit = None, arg_cmd = [], arg_run = True, arg_ports = None,
       arg_all_ports = False, arg_clean = True, arg_push = False, arg_volumes = [],
       arg_user_id = None, arg_user_name = None, arg_environment = [], arg_editable = False,
       arg_target_repo_dir = None, arg_appendix = None, arg_labels = [], arg_build_args = [],
       arg_subdir = None, arg_version = False, arg_cache_from = [], arg_engine = None \<rparr>"

subsection \<open>The application object\<close>

text \<open>
  The attributes of the \<^verbatim>\<open>Repo2Docker\<close> object that \<^verbatim>\<open>make_r2d\<close> reads or writes. The class is
  defined in another module; \<open>'p\<close> is the type of the port mapping that
  \<^verbatim>\<open>validate_and_generate_port_mapping\<close> (also from another module) returns.
  \<^verbatim>\<open>build_memory_limit\<close> holds an integer or a string. An assignment to an attribute is a
  plain store here; what the class does on assignment is in that other module.
\<close>

definition DEBUG :: int where
  "DEBUG = 10"

datatype memory_limit = Limit_int int | Limit_str string

record 'p r2d =
  log_level :: int
  appendix :: string
  labels :: "string \<rightharpoonup> string"
  extra_build_args :: "string \<rightharpoonup> string"
  repo :: string
  ref :: "string option"
  volumes :: "string \<rightharpoonup> string"
  output_image_spec :: string
  json_logs :: bool
  dry_run :: bool
  run :: bool
  push :: bool
  run_cmd :: "string list"
  ports :: 'p
  all_ports :: bool
  user_id :: int
  user_name :: string
  build_memory_limit :: memory_limit
  subdir :: string
  cache_from :: "string list"
  engine :: string
  environment :: "string list"
  cleanup_checkout :: bool
  target_repo_dir :: string

text \<open>
  What \<^verbatim>\<open>make_r2d\<close> takes from outside the module: the filesystem queries of \<^verbatim>\<open>os.path\<close>, the
  freshly constructed \<^verbatim>\<open>Repo2Docker()\<close>, the effect of \<^verbatim>\<open>load_config_file\<close> on it, and the
  port validator, which may raise.
\<close>

record 'p world =
  isdir :: "string \<Rightarrow> bool"
  abspath :: "string \<Rightarrow> string"
  path_exists :: "string \<Rightarrow> bool"
  new_r2d :: "'p r2d"
  load_config_file :: "string \<Rightarrow> 'p r2d \<Rightarrow> 'p r2d"
  validate_and_generate_port_mapping :: "string list option \<Rightarrow> error + 'p"

subsection \<open>make\_r2d\<close>

text \<open>
  Lines 265 to 271: \<^verbatim>\<open>key, _, val = l.partition("="); d[key] = val\<close> for each string.
\<close>

definition add_pairs :: "string list \<Rightarrow> (string \<rightharpoonup> string) \<Rightarrow> (string \<rightharpoonup> string)" where
  "add_pairs ls d =
     foldl (\<lambda>d l. case str_partition CHR ''='' l of (key, val) \<Rightarrow> d(key \<mapsto> val)) d ls"

text \<open>
  Lines 319 to 321: \<^verbatim>\<open>src, dest = v.split(":")\<close> raises \<^verbatim>\<open>ValueError\<close> unless the split has
  exactly two parts.
\<close>

fun add_volumes :: "string list \<Rightarrow> (string \<rightharpoonup> string) \<Rightarrow> error + (string \<rightharpoonup> string)" where
  "add_volumes [] vols = Inr vols"
| "add_volumes (v # vs) vols =
     (case str_split CHR '':'' v of
        [src, dest] \<Rightarrow> add_volumes vs (vols(src \<mapsto> dest))
      | _ \<Rightarrow> Inl ValueError)"

text \<open>
  \<^verbatim>\<open>make_r2d\<close>, lines 244 to 395, statement by statement, in six consecutive parts. \<open>argv\<close>
  is the command line and \<open>args\<close> the namespace parsed from it. A condition \<^verbatim>\<open>if x:\<close> on an
  optional string or number is Python's truth test: false for \<^verbatim>\<open>None\<close>, for the empty
  string, for the empty list and for the number 0. The messages printed before an exit
  are not part of the model.

  Lines 256 to 274: the object is constructed, the configuration file is loaded, and the
  appendix, the labels, the build arguments and the repository are set.
\<close>

definition set_repository :: "'p world \<Rightarrow> args \<Rightarrow> 'p r2d" where
  "set_repository w args =
     (let r = new_r2d w;
          r = (if arg_debug args then r\<lparr>log_level := DEBUG\<rparr> else r);
          r = load_config_file w (arg_config args) r;
          r = (case arg_appendix args of
                 None \<Rightarrow> r
               | Some a \<Rightarrow> if a \<noteq> [] then r\<lparr>appendix := a\<rparr> else r);
          r = r\<lparr>labels := add_pairs (arg_labels args) (labels r)\<rparr>;
          r = r\<lparr>extra_build_args := add_pairs (arg_build_args args) (extra_build_args r)\<rparr>
      in r\<lparr>repo := arg_repo args, ref := arg_ref args\<rparr>)"

text \<open>
  Lines 278 to 309: the editable mount, the image name and the flags. A dry run switches
  \<^verbatim>\<open>args.run\<close> and \<^verbatim>\<open>args.push\<close> off in the namespace, so the namespace is returned too.
\<close>

definition set_flags :: "'p world \<Rightarrow> args \<Rightarrow> 'p r2d \<Rightarrow> error + 'p r2d \<times> args" where
  "set_flags w args r =
     (if arg_editable args \<and> \<not> isdir w (arg_repo args) then Inl (SystemExit 1)
      else
        let r = (if arg_editable args
                 then r\<lparr>volumes := (volumes r)(abspath w (arg_repo args) \<mapsto> ''.'')\<rparr>
                 else r);
            r = r\<lparr>output_image_spec :=
                    (case arg_image_name args of
                       None \<Rightarrow> []
                     | Some n \<Rightarrow> if n \<noteq> [] then n else [])\<rparr>;
            r = r\<lparr>json_logs := arg_json_logs args\<rparr>;
            r = r\<lparr>dry_run := \<not> arg_build args\<rparr>;
            args = (if dry_run r then args\<lparr>arg_run := False, arg_push := False\<rparr> else args)
        in Inr (r\<lparr>run := arg_run args, push := arg_push args\<rparr>, args))"

text \<open>
  Lines 314 to 345: the test on the volumes, then the volumes of \<^verbatim>\<open>-v\<close>, the command, and
  the three tests on the ports before the port mapping is validated.
\<close>

definition set_volumes_and_ports :: "'p world \<Rightarrow> args \<Rightarrow> 'p r2d \<Rightarrow> error + 'p r2d" where
  "set_volumes_and_ports w args r =
     (if volumes r \<noteq> Map.empty \<and> \<not> run r then Inl (SystemExit 1)
      else
        case add_volumes (arg_volumes args) (volumes r) of
          Inl e \<Rightarrow> Inl e
        | Inr vols \<Rightarrow>
            let r = r\<lparr>volumes := vols\<rparr>;
                r = r\<lparr>run_cmd := arg_cmd args\<rparr>
            in
            if arg_all_ports args \<and> \<not> run r then Inl (SystemExit 1)
            else if arg_ports args \<noteq> None \<and> arg_ports args \<noteq> Some [] \<and> \<not> run r
              then Inl (SystemExit 1)
            else if arg_ports args \<noteq> None \<and> arg_ports args \<noteq> Some [] \<and> run_cmd r = []
              then Inl (SystemExit 1)
            else
              case validate_and_generate_port_mapping w (arg_ports args) of
                Inl e \<Rightarrow> Inl e
              | Inr mapping \<Rightarrow> Inr (r\<lparr>ports := mapping, all_ports := arg_all_ports args\<rparr>))"

text \<open>Lines 347 to 360: the user, and the test on the superuser.\<close>

definition set_user :: "args \<Rightarrow> 'p r2d \<Rightarrow> error + 'p r2d" where
  "set_user args r =
     (let r = (case arg_user_id args of
                 None \<Rightarrow> r
               | Some u \<Rightarrow> if u \<noteq> 0 then r\<lparr>user_id := u\<rparr> else r);
          r = (case arg_user_name args of
                 None \<Rightarrow> r
               | Some n \<Rightarrow> if n \<noteq> [] then r\<lparr>user_name := n\<rparr> else r)
      in if user_id r = 0 \<and> \<not> dry_run r then Inl (SystemExit 1) else Inr r)"

text \<open>
  Lines 362 to 368: the memory limit. A string that \<^verbatim>\<open>isnumeric\<close> accepts is converted by
  \<^verbatim>\<open>int\<close>, which may raise.
\<close>

definition set_build_memory_limit :: "args \<Rightarrow> 'p r2d \<Rightarrow> error + 'p r2d" where
  "set_build_memory_limit args r =
     (case arg_build_memory_limit args of
        None \<Rightarrow> Inr r
      | Some m \<Rightarrow>
          if m = [] then Inr r
          else if isnumeric m then
            (case int_of_str m of
               Inl e \<Rightarrow> Inl e
             | Inr n \<Rightarrow> Inr (r\<lparr>build_memory_limit := Limit_int n\<rparr>))
          else Inr (r\<lparr>build_memory_limit := Limit_str m\<rparr>))"

text \<open>Lines 370 to 395: the test on the environment, and the rest.\<close>

definition set_remaining :: "'p world \<Rightarrow> args \<Rightarrow> 'p r2d \<Rightarrow> error + 'p r2d" where
  "set_remaining w args r =
     (if arg_environment args \<noteq> [] \<and> \<not> run r then Inl (SystemExit 1)
      else
        let r = (case arg_subdir args of
                   None \<Rightarrow> r
                 | Some d \<Rightarrow> if d \<noteq> [] then r\<lparr>subdir := d\<rparr> else r);
            r = (if arg_cache_from args \<noteq> []
                 then r\<lparr>cache_from := arg_cache_from args\<rparr> else r);
            r = (case arg_engine args of
                   None \<Rightarrow> r
                 | Some e \<Rightarrow> if e \<noteq> [] then r\<lparr>engine := e\<rparr> else r);
            r = r\<lparr>environment := arg_environment args\<rparr>;
            r = (if path_exists w (arg_repo args)
                 then r\<lparr>cleanup_checkout := False\<rparr>
                 else r\<lparr>cleanup_checkout := arg_clean args\<rparr>);
            r = (case arg_target_repo_dir args of
                   None \<Rightarrow> r
                 | Some d \<Rightarrow> if d \<noteq> [] then r\<lparr>target_repo_dir := d\<rparr> else r)
        in Inr r)"

text \<open>
  The whole function: the test for \<^verbatim>\<open>--version\<close> on the raw command line (lines 250 to
  252), then the six parts in order; the first exception ends the call.
\<close>

definition make_r2d :: "'p world \<Rightarrow> string list \<Rightarrow> args \<Rightarrow> error + 'p r2d" where
  "make_r2d w argv args =
     (if ''--version'' \<in> set argv then Inl (SystemExit 0)
      else
        case set_flags w args (set_repository w args) of
          Inl e \<Rightarrow> Inl e
        | Inr (r, args) \<Rightarrow>
            (case set_volumes_and_ports w args r of
               Inl e \<Rightarrow> Inl e
             | Inr r \<Rightarrow>
                 (case set_user args r of
                    Inl e \<Rightarrow> Inl e
                  | Inr r \<Rightarrow>
                      (case set_build_memory_limit args r of
                         Inl e \<Rightarrow> Inl e
                       | Inr r \<Rightarrow> set_remaining w args r))))"

subsection \<open>An invocation to evaluate on\<close>

text \<open>
  A user with uid 1000 runs the program in a directory that exists, without a
  configuration file; the port validator accepts every list and returns it.
\<close>

definition example_r2d :: "string list r2d" where
  "example_r2d =
     \<lparr> log_level = 20, appendix = [], labels = Map.empty, extra_build_args = Map.empty,
       repo = [], ref = None, volumes = Map.empty, output_image_spec = [],
       json_logs = False, dry_run = False, run = True, push = False, run_cmd = [],
       ports = [], all_ports = False, user_id = 1000, user_name = ''jovyan'',
       build_memory_limit = Limit_int 0, subdir = [], cache_from = [], engine = ''docker'',
       environment = [], cleanup_checkout = False, target_repo_dir = [] \<rparr>"

definition example_world :: "string list world" where
  "example_world =
     \<lparr> isdir = (\<lambda>p. True), abspath = (\<lambda>p. p), path_exists = (\<lambda>p. True),
       new_r2d = example_r2d, load_config_file = (\<lambda>f r. r),
       validate_and_generate_port_mapping =
         (\<lambda>ps. Inr (case ps of None \<Rightarrow> [] | Some l \<Rightarrow> l)) \<rparr>"

section \<open>Theorems\<close>

subsection \<open>Detection\<close>

lemma detect_for_none:
  "\<forall>c \<in> set cs. \<not> det c \<Longrightarrow> detect_for det cs bps = (None, bps)"
  by (induction cs) auto

lemma detect_for_some:
  "\<exists>c \<in> set cs. det c \<Longrightarrow>
   detect_for det cs bps = (Some (NameError ''buidpack''), bps @ [hd (filter det cs)])"
  by (induction cs) auto

text \<open>
  C1 (as the code has it). When no class of the catalog detects, \<^verbatim>\<open>detect\<close> on a fresh
  instance raises nothing: it returns \<^verbatim>\<open>True\<close> and leaves \<^verbatim>\<open>self.buildpacks\<close> empty.
\<close>

theorem detect_nothing_detected_returns_True:
  "\<forall>c \<in> set catalog. \<not> det c \<Longrightarrow> detect det [] = (Inr True, [])"
  by (simp add: detect_def detect_for_none)

theorem detect_nothing_detected_returns_True_witness:
  "list_all (\<lambda>c. \<not> no_match c) catalog \<and> detect no_match [] = (Inr True, [])"
  using detect_nothing_detected_returns_True [of no_match]
  by (simp add: no_match_def list_all_iff)

text \<open>
  C1 (as the claim states it) fails: on the repository \<open>no_match\<close> the call is not a
  failure, and the buildpack set it leaves behind is empty.
\<close>

theorem detect_nothing_detected_counterexample:
  "\<not> isl (fst (detect no_match [])) \<and> snd (detect no_match []) = []"
  by (simp add: detect_def catalog_def no_match_def)

lemma detect_some_detected:
  "\<exists>c \<in> set catalog. det c \<Longrightarrow> fst (detect det bps) = Inl (NameError ''buidpack'')"
  by (simp add: detect_def detect_for_some)

lemma detect_some_detected_witness:
  "list_ex r_and_conda catalog \<and>
   fst (detect r_and_conda [BaseImage]) = Inl (NameError ''buidpack'')"
proof -
  have h: "\<exists>c \<in> set catalog. r_and_conda c"
    by (simp add: catalog_def r_and_conda_def)
  from detect_some_detected [OF h, of "[BaseImage]"] h show ?thesis
    by (simp add: list_ex_iff)
qed

lemma detect_returns_only_empty:
  "fst (detect det bps) = Inr v \<Longrightarrow> v \<and> snd (detect det bps) = []"
  by (auto simp: detect_def split: prod.splits option.splits if_splits)

text \<open>
  C4. On a repository where only \<^verbatim>\<open>PythonBuildPack\<close> detects, \<^verbatim>\<open>detect\<close> appends that class
  and then raises \<^verbatim>\<open>NameError\<close> on line 22: no ancestor is appended and no merged set is
  built.
\<close>

theorem detect_only_python_raises:
  "detect only_python [] = (Inl (NameError ''buidpack''), [PythonBuildPack])"
  by (simp add: detect_def catalog_def only_python_def)

text \<open>
  C2. On a repository where \<^verbatim>\<open>RBuildPack\<close> and \<^verbatim>\<open>CondaBuildPack\<close> detect, the first call
  of \<^verbatim>\<open>detect\<close> raises \<^verbatim>\<open>NameError\<close> with an unsorted one-element list in
  \<^verbatim>\<open>self.buildpacks\<close>; a second call on the same instance raises again and leaves a
  different list, with a duplicate.
\<close>

theorem detect_r_and_conda_raises:
  "detect r_and_conda [] = (Inl (NameError ''buidpack''), [CondaBuildPack]) \<and>
   detect r_and_conda [CondaBuildPack] =
     (Inl (NameError ''buidpack''), [CondaBuildPack, CondaBuildPack])"
  by (simp add: detect_def catalog_def r_and_conda_def)

subsection \<open>The merged contract\<close>

lemma foldl_union_conv:
  "foldl (\<lambda>acc b. acc \<union> f b) s bs = s \<union> \<Union> (f ` set bs)"
  by (induction bs arbitrary: s) auto

lemma foldl_append_conv:
  "foldl (\<lambda>acc b. acc @ f b) s bs = s @ concat (map f bs)"
  by (induction bs arbitrary: s) auto

lemma map_add_lookup:
  "(m ++ d) k = (case d k of None \<Rightarrow> m k | Some v \<Rightarrow> Some v)"
  by (simp add: map_add_def)

lemma last_write_wins_snoc:
  "last_write_wins (ds @ [d]) k = (case d k of None \<Rightarrow> last_write_wins ds k | Some v \<Rightarrow> Some v)"
  by (cases "d k") (simp_all add: last_write_wins_def)

lemma merge_dicts_lookup:
  "foldl (\<lambda>acc b. acc ++ f b) m bs k =
     (case last_write_wins (map f bs) k of None \<Rightarrow> m k | Some v \<Rightarrow> Some v)"
proof (induction bs rule: rev_induct)
  case Nil
  show ?case by (simp add: last_write_wins_def)
next
  case (snoc b bs)
  have "foldl (\<lambda>acc b. acc ++ f b) m (bs @ [b]) k = (foldl (\<lambda>acc b. acc ++ f b) m bs ++ f b) k"
    by simp
  also have "\<dots> = (case f b k of None \<Rightarrow> foldl (\<lambda>acc b. acc ++ f b) m bs k | Some v \<Rightarrow> Some v)"
    by (rule map_add_lookup)
  also have "\<dots> = (case f b k of
                      None \<Rightarrow> (case last_write_wins (map f bs) k of None \<Rightarrow> m k | Some v \<Rightarrow> Some v)
                    | Some v \<Rightarrow> Some v)"
    by (simp only: snoc.IH)
  also have "\<dots> = (case last_write_wins (map f (bs @ [b])) k of None \<Rightarrow> m k | Some v \<Rightarrow> Some v)"
    by (cases "f b k") (simp_all add: last_write_wins_snoc)
  finally show ?case .
qed

lemma merge_dicts_last_write_wins:
  "foldl (\<lambda>acc b. acc ++ f b) Map.empty bs = last_write_wins (map f bs)"
proof (rule ext)
  fix k
  show "foldl (\<lambda>acc b. acc ++ f b) Map.empty bs k = last_write_wins (map f bs) k"
    by (cases "last_write_wins (map f bs) k") (simp_all add: merge_dicts_lookup)
qed

text \<open>
  What last-write-wins means on a collision: when a buildpack \<open>b\<close> of the list has the
  key and no later one has it, the merged value is \<open>b\<close>'s, whatever earlier buildpacks say.
\<close>

lemma last_write_wins_collision:
  assumes "d k = Some v" and "\<forall>d' \<in> set later. d' k = None"
  shows "last_write_wins (earlier @ d # later) k = Some v"
proof -
  have "filter (\<lambda>d. d k \<noteq> None) later = []"
    using assms(2) by (simp add: filter_empty_conv)
  then show ?thesis
    using assms(1) by (simp add: last_write_wins_def)
qed

text \<open>
  C3. Read on any list of buildpacks, in the order of the list: \<^verbatim>\<open>get_packages\<close> and
  \<^verbatim>\<open>get_base_packages\<close> return the union of the buildpacks' sets; \<^verbatim>\<open>get_build_env\<close>,
  \<^verbatim>\<open>get_env\<close>, \<^verbatim>\<open>get_path\<close> and the four script getters return the concatenation of the
  buildpacks' sequences; \<^verbatim>\<open>get_build_script_files\<close> and \<^verbatim>\<open>get_preassemble_script_files\<close>
  return the last-write-wins merge of the buildpacks' dictionaries.
\<close>

theorem merged_contract_semantics:
  "get_packages bps = \<Union> (packages ` set bps) \<and>
   get_base_packages bps = \<Union> (base_packages ` set bps) \<and>
   get_build_env bps = concat (map build_env bps) \<and>
   get_env bps = concat (map env bps) \<and>
   get_path bps = concat (map path bps) \<and>
   get_build_scripts bps = concat (map build_scripts bps) \<and>
   get_preassemble_scripts bps = concat (map preassemble_scripts bps) \<and>
   get_assemble_scripts bps = concat (map assemble_scripts bps) \<and>
   get_post_build_scripts bps = concat (map post_build_scripts bps) \<and>
   get_build_script_files bps = last_write_wins (map build_script_files bps) \<and>
   get_preassemble_script_files bps = last_write_wins (map preassemble_script_files bps)"
  unfolding get_packages_def get_base_packages_def get_build_env_def get_env_def get_path_def
    get_build_scripts_def get_preassemble_scripts_def get_assemble_scripts_def
    get_post_build_scripts_def get_build_script_files_def get_preassemble_script_files_def
  by (simp only: foldl_union_conv foldl_append_conv merge_dicts_last_write_wins
      Un_empty_left append_Nil simp_thms)

subsection \<open>The build generator\<close>

lemma drain_at_error:
  "position g = At_error \<Longrightarrow>
   drain p t g seen = Some (seen, None, g\<lparr>position := Finished, dirs := dirs g - {t}\<rparr>)"
  by (subst drain.simps) (simp add: next_event_def)

lemma loop_iteration_running:
  "readline p i = Inr line \<Longrightarrow> poll p i = None \<Longrightarrow>
   loop_iteration p t i g = (Inr (Some (Stream_event line)), g\<lparr>position := At_stream i\<rparr>)"
  by (simp add: loop_iteration_def)

lemma loop_iteration_failed:
  "readline p i = Inr line \<Longrightarrow> poll p i = Some rc \<Longrightarrow> rc \<noteq> 0 \<Longrightarrow>
   loop_iteration p t i g = (Inr (Some (Error_event line)), g\<lparr>position := At_error\<rparr>)"
  by (simp add: loop_iteration_def)

lemma loop_iteration_succeeded:
  "readline p i = Inr line \<Longrightarrow> poll p i = Some 0 \<Longrightarrow>
   loop_iteration p t i g = (Inr None, g\<lparr>position := Finished, dirs := dirs g - {t}\<rparr>)"
  by (simp add: loop_iteration_def)

text \<open>
  The consumer's loop from the top of iteration \<open>j\<close>, written without the generator's
  position. \<open>ln i\<close> is the string that the call of \<^verbatim>\<open>readline\<close> in iteration \<open>i\<close> returns.
\<close>

lemma drain_iterations:
  assumes exit: "poll p k = Some rc" and running: "\<forall>i<k. poll p i = None"
    and decoded: "\<forall>i\<le>k. readline p i = Inr (ln i)"
  shows "j \<le> k \<Longrightarrow>
    (case loop_iteration p t j g of
       (Inl e, g') \<Rightarrow> Some (seen, Some e, g')
     | (Inr None, g') \<Rightarrow> Some (seen, None, g')
     | (Inr (Some ev), g') \<Rightarrow> drain p t g' (seen @ [ev])) =
    Some (seen @ map (\<lambda>i. Stream_event (ln i)) [j..<k] @
            (if rc \<noteq> 0 then [Error_event (ln k)] else []),
          None, g\<lparr>position := Finished, dirs := dirs g - {t}\<rparr>)"
proof (induction "k - j" arbitrary: j g seen)
  case 0
  then have jk: "j = k" by simp
  from decoded have line: "readline p k = Inr (ln k)" by simp
  show ?case
  proof (cases "rc = 0")
    case True
    with exit jk show ?thesis by (simp add: loop_iteration_succeeded [OF line])
  next
    case False
    with exit jk show ?thesis by (simp add: loop_iteration_failed [OF line] drain_at_error)
  qed
next
  case (Suc n)
  then have lt: "j < k" and n: "n = k - Suc j" and le: "Suc j \<le> k" by simp_all
  from running lt have none: "poll p j = None" by simp
  from decoded lt have line: "readline p j = Inr (ln j)" by simp
  have step: "drain p t (g\<lparr>position := At_stream j\<rparr>) (seen @ [Stream_event (ln j)]) =
      (case loop_iteration p t (Suc j) (g\<lparr>position := At_stream j\<rparr>) of
         (Inl e, g') \<Rightarrow> Some (seen @ [Stream_event (ln j)], Some e, g')
       | (Inr None, g') \<Rightarrow> Some (seen @ [Stream_event (ln j)], None, g')
       | (Inr (Some ev), g') \<Rightarrow> drain p t g' ((seen @ [Stream_event (ln j)]) @ [ev]))"
    by (subst drain.simps) (simp add: next_event_def)
  have upt: "[j..<k] = j # [Suc j..<k]" using lt by (simp add: upt_conv_Cons)
  show ?case
    using Suc.hyps(1) [where j = "Suc j" and g = "g\<lparr>position := At_stream j\<rparr>"
        and seen = "seen @ [Stream_event (ln j)]", OF n le]
    by (simp add: loop_iteration_running [OF line none] step upt)
qed

lemma build_exit_seen:
  assumes exit: "poll p k = Some rc" and running: "\<forall>i<k. poll p i = None"
    and decoded: "\<forall>i\<le>k. readline p i = Inr (ln i)"
  shows "build p t ds =
    Some (map (\<lambda>i. Stream_event (ln i)) [0..<k] @
            (if rc \<noteq> 0 then [Error_event (ln k)] else []),
          None, \<lparr>position = Finished, dirs = ds - {t}\<rparr>)"
proof -
  have "build p t ds =
      (case loop_iteration p t 0 (new_generator (insert t ds)) of
         (Inl e, g') \<Rightarrow> Some ([], Some e, g')
       | (Inr None, g') \<Rightarrow> Some ([], None, g')
       | (Inr (Some ev), g') \<Rightarrow> drain p t g' ([] @ [ev]))"
    unfolding build_def by (subst drain.simps) (simp add: next_event_def new_generator_def)
  also have "\<dots> = Some ([] @ map (\<lambda>i. Stream_event (ln i)) [0..<k] @
            (if rc \<noteq> 0 then [Error_event (ln k)] else []),
          None,
          (new_generator (insert t ds))\<lparr>position := Finished,
             dirs := dirs (new_generator (insert t ds)) - {t}\<rparr>)"
    by (rule drain_iterations [OF exit running decoded]) simp
  finally show ?thesis by (simp add: new_generator_def)
qed

lemma build_removes_tempdir:
  assumes "poll p k = Some rc" and "\<forall>i<k. poll p i = None"
    and "\<forall>i\<le>k. readline p i = Inr (ln i)"
  shows "\<exists>evs g. build p t ds = Some (evs, None, g) \<and> t \<notin> dirs g"
  by (simp add: build_exit_seen [OF assms])

text \<open>
  What the events of a complete iteration are, once the exit of the child is visible at
  poll \<open>k\<close> with status \<open>rc\<close> and every read up to then returned text: a non-zero status
  gives exactly one error event, the last event, and it carries what the call of
  \<^verbatim>\<open>readline\<close> in iteration \<open>k\<close> returned; status zero gives no error event.
\<close>

lemma build_one_error_event_iff_nonzero_exit:
  assumes "poll p k = Some rc" and "\<forall>i<k. poll p i = None"
    and "\<forall>i\<le>k. readline p i = Inr (ln i)"
  shows "\<exists>evs g. build p t ds = Some (evs, None, g) \<and>
           (rc \<noteq> 0 \<longrightarrow> evs \<noteq> [] \<and> last evs = Error_event (ln k) \<and>
                       filter is_error evs = [Error_event (ln k)]) \<and>
           (rc = 0 \<longrightarrow> filter is_error evs = [])"
proof -
  have no_errors: "filter is_error (map (\<lambda>i. Stream_event (ln i)) [0..<k]) = []"
    by (induction k) simp_all
  show ?thesis
    by (cases "rc = 0") (simp_all add: build_exit_seen [OF assms] no_errors)
qed

text \<open>
  The schedule in which every line reaches the consumer: the exit of the child becomes
  visible exactly in the iteration whose \<^verbatim>\<open>readline\<close> returns the end of file.
\<close>

lemma build_exit_seen_at_eof:
  "build (child_of out (length out) rc) t ds =
     Some (map Stream_event out @ (if rc \<noteq> 0 then [Error_event []] else []),
           None, \<lparr>position = Finished, dirs = ds - {t}\<rparr>)"
proof -
  let ?p = "child_of out (length out) rc"
  let ?ln = "\<lambda>i. if i < length out then out ! i else []"
  have "poll ?p (length out) = Some rc" and "\<forall>i<length out. poll ?p i = None"
    and "\<forall>i\<le>length out. readline ?p i = Inr (?ln i)"
    by (simp_all add: child_of_def)
  from build_exit_seen [OF this]
  have "build ?p t ds =
      Some (map (\<lambda>i. Stream_event (?ln i)) [0..<length out] @
              (if rc \<noteq> 0 then [Error_event (?ln (length out))] else []),
            None, \<lparr>position = Finished, dirs = ds - {t}\<rparr>)" .
  moreover have "map (\<lambda>i. Stream_event (?ln i)) [0..<length out] = map Stream_event out"
    by (rule nth_equalityI) simp_all
  ultimately show ?thesis by simp
qed

text \<open>
  Output that cannot be decoded ends the iteration with \<^verbatim>\<open>UnicodeDecodeError\<close>, with no
  event, and the temporary directory stays.
\<close>

lemma build_undecodable_output:
  "build undecodable_child ''/tmp/tmpq'' {} =
     Some ([], Some UnicodeDecodeError, \<lparr>position = Finished, dirs = {''/tmp/tmpq''}\<rparr>)"
  by (simp add: build_def drain.simps next_event_def loop_iteration_def undecodable_child_def
      new_generator_def)

text \<open>
  C5. A child writes two lines and exits with status 0. If the exit is visible at the
  adapter's first poll, the consumer gets no event at all; if it is visible at the second
  poll, the consumer gets the first line only. In both runs lines the child wrote are
  never emitted.
\<close>

theorem build_drops_lines_after_exit:
  "build (child_of [''a\<newline>'', ''b\<newline>''] 0 0) ''/tmp/tmpq'' {} =
     Some ([], None, \<lparr>position = Finished, dirs = {}\<rparr>) \<and>
   build (child_of [''a\<newline>'', ''b\<newline>''] 1 0) ''/tmp/tmpq'' {} =
     Some ([Stream_event ''a\<newline>''], None, \<lparr>position = Finished, dirs = {}\<rparr>)"
  by (simp add: build_def drain.simps next_event_def loop_iteration_def child_of_def
      new_generator_def)

text \<open>
  C6. A child writes the lines \<^verbatim>\<open>a\<close> and \<^verbatim>\<open>b\<close> and exits with status 1; the adapter reads
  both lines and the end of file before a poll shows the exit. The stream ends with one
  error event, but the event carries the empty string that \<^verbatim>\<open>readline\<close> returned at the end
  of file, not the last line \<^verbatim>\<open>b\<close> of the output.
\<close>

theorem build_error_event_carries_end_of_file:
  "build (child_of [''a\<newline>'', ''b\<newline>''] 2 1) ''/tmp/tmpq'' {} =
     Some ([Stream_event ''a\<newline>'', Stream_event ''b\<newline>'', Error_event []],
           None, \<lparr>position = Finished, dirs = {}\<rparr>)"
  by (simp add: build_def drain.simps next_event_def loop_iteration_def child_of_def
      new_generator_def)

text \<open>
  C7. A child writes one line and exits with status 1. A consumer that stops after the
  first event, or after the error event, leaves the temporary directory on the
  filesystem: line 90 is reached only by asking for an event after the last one.
\<close>

theorem build_stopped_early_keeps_tempdir:
  "take_events (child_of [''a\<newline>''] 1 1) ''/tmp/tmpq'' 1 (new_generator {}) =
     ([Stream_event ''a\<newline>''], None, \<lparr>position = Finished, dirs = {''/tmp/tmpq''}\<rparr>) \<and>
   take_events (child_of [''a\<newline>''] 1 1) ''/tmp/tmpq'' 2 (new_generator {}) =
     ([Stream_event ''a\<newline>'', Error_event []], None,
      \<lparr>position = Finished, dirs = {''/tmp/tmpq''}\<rparr>)"
  by (simp add: numeral_2_eq_2 next_event_def loop_iteration_def child_of_def
      new_generator_def gen_close_def)

subsection \<open>The command line\<close>

text \<open>
  C8. The command line \<^verbatim>\<open>--no-run -v /data:/data .\<close> asks for a volume with the run flag
  off. \<^verbatim>\<open>make_r2d\<close> does not exit: the test of line 314 reads \<^verbatim>\<open>r2d.volumes\<close> before the loop
  of lines 319 to 321 has put the volumes of \<^verbatim>\<open>-v\<close> into it. It returns an application
  object that holds the volume and has the run flag off.
\<close>

theorem make_r2d_volume_without_run_accepted:
  "\<not> isl (make_r2d example_world [''--no-run'', ''-v'', ''/data:/data'', ''.'']
            ((default_args ''.'')\<lparr>arg_run := False, arg_volumes := [''/data:/data'']\<rparr>)) \<and>
   volumes (projr (make_r2d example_world [''--no-run'', ''-v'', ''/data:/data'', ''.'']
            ((default_args ''.'')\<lparr>arg_run := False, arg_volumes := [''/data:/data'']\<rparr>)))
     ''/data'' = Some ''/data'' \<and>
   \<not> run (projr (make_r2d example_world [''--no-run'', ''-v'', ''/data:/data'', ''.'']
            ((default_args ''.'')\<lparr>arg_run := False, arg_volumes := [''/data:/data'']\<rparr>)))"
  by (simp add: make_r2d_def set_repository_def set_flags_def set_volumes_and_ports_def
      set_user_def set_build_memory_limit_def set_remaining_def example_world_def example_r2d_def default_args_def
      add_pairs_def)

text \<open>
  C9. The command line \<^verbatim>\<open>--user-id 0 .\<close>, run by a user with uid 1000, asks for the
  superuser outside dry-run mode. \<^verbatim>\<open>make_r2d\<close> does not exit: \<^verbatim>\<open>if args.user_id:\<close> on line 347
  is false for the number 0, so the request is dropped and the application object keeps
  the uid 1000.
\<close>

theorem make_r2d_user_id_zero_accepted:
  "\<not> isl (make_r2d example_world [''--user-id'', ''0'', ''.'']
            ((default_args ''.'')\<lparr>arg_user_id := Some 0\<rparr>)) \<and>
   user_id (projr (make_r2d example_world [''--user-id'', ''0'', ''.'']
            ((default_args ''.'')\<lparr>arg_user_id := Some 0\<rparr>))) = 1000 \<and>
   \<not> dry_run (projr (make_r2d example_world [''--user-id'', ''0'', ''.'']
            ((default_args ''.'')\<lparr>arg_user_id := Some 0\<rparr>)))"
  by (simp add: make_r2d_def set_repository_def set_flags_def set_volumes_and_ports_def
      set_user_def set_build_memory_limit_def set_remaining_def example_world_def example_r2d_def default_args_def
      add_pairs_def)

text \<open>
  C10. For an argument of \<^verbatim>\<open>--env\<close> without an equals sign: when the environment of the
  process defines it, the entry \<^verbatim>\<open>key=value\<close> with the current value is appended; when it
  does not, nothing is appended and nothing is raised. An argument with an equals sign
  is appended as it is.
\<close>

theorem MimicDockerEnvHandling_call_cases:
  "(CHR ''='' \<notin> set values \<and> environ values = Some v \<longrightarrow>
      MimicDockerEnvHandling_call environ dest values = dest @ [values @ ''='' @ v]) \<and>
   (CHR ''='' \<notin> set values \<and> environ values = None \<longrightarrow>
      MimicDockerEnvHandling_call environ dest values = dest) \<and>
   (CHR ''='' \<in> set values \<longrightarrow>
      MimicDockerEnvHandling_call environ dest values = dest @ [values])"
  by (simp add: MimicDockerEnvHandling_call_def)

theorem MimicDockerEnvHandling_call_cases_witness:
  "MimicDockerEnvHandling_call [''HOME'' \<mapsto> ''/root''] [''A=1''] ''HOME'' = [''A=1'', ''HOME=/root''] \<and>
   MimicDockerEnvHandling_call [''HOME'' \<mapsto> ''/root''] [''A=1''] ''EDITOR'' = [''A=1''] \<and>
   MimicDockerEnvHandling_call [''HOME'' \<mapsto> ''/root''] [''A=1''] ''B='' = [''A=1'', ''B='']"
  using MimicDockerEnvHandling_call_cases [of "''HOME''" "[''HOME'' \<mapsto> ''/root'']" "''/root''" "[''A=1'']"]
    MimicDockerEnvHandling_call_cases [of "''EDITOR''" "[''HOME'' \<mapsto> ''/root'']" "''/root''" "[''A=1'']"]
    MimicDockerEnvHandling_call_cases [of "''B=''" "[''HOME'' \<mapsto> ''/root'']" "''/root''" "[''A=1'']"]
  by simp

subsection \<open>What make\_r2d does reject\<close>

lemma set_flags_returned:
  assumes "set_flags w args r = Inr (r', args')"
  shows "dry_run r' = (\<not> arg_build args) \<and> run r' = (arg_build args \<and> arg_run args) \<and>
         arg_ports args' = arg_ports args \<and> arg_all_ports args' = arg_all_ports args \<and>
         arg_cmd args' = arg_cmd args \<and> arg_environment args' = arg_environment args \<and>
         (arg_editable args \<longrightarrow> volumes r' \<noteq> Map.empty)"
  using assms
  by (auto simp: set_flags_def Let_def split: if_splits)

lemma set_flags_error:
  "set_flags w args r = Inl e \<Longrightarrow> e = SystemExit 1"
  by (auto simp: set_flags_def Let_def split: if_splits)

lemma add_volumes_error:
  "add_volumes vs vols = Inl e \<Longrightarrow> e = ValueError"
  by (induction vs arbitrary: vols) (auto split: list.splits)

lemma set_volumes_and_ports_returned:
  assumes "set_volumes_and_ports w args r = Inr r'"
  shows "dry_run r' = dry_run r \<and> run r' = run r \<and> user_id r' = user_id r \<and>
         run_cmd r' = arg_cmd args \<and>
         (arg_all_ports args \<longrightarrow> run r) \<and>
         (arg_ports args \<noteq> None \<and> arg_ports args \<noteq> Some [] \<longrightarrow> run r \<and> arg_cmd args \<noteq> []) \<and>
         (volumes r \<noteq> Map.empty \<longrightarrow> run r)"
  using assms
  by (auto simp: set_volumes_and_ports_def Let_def split: if_splits sum.splits)

lemma set_user_returned:
  assumes "set_user args r = Inr r'"
  shows "dry_run r' = dry_run r \<and> run r' = run r \<and> run_cmd r' = run_cmd r \<and>
         (dry_run r' \<or> user_id r' \<noteq> 0)"
  using assms
  by (auto simp: set_user_def Let_def split: if_splits option.splits)

lemma set_build_memory_limit_frame:
  assumes "set_build_memory_limit args r = Inr r'"
  shows "user_id r' = user_id r \<and> dry_run r' = dry_run r \<and> run r' = run r \<and>
         run_cmd r' = run_cmd r"
  using assms
  by (auto simp: set_build_memory_limit_def split: option.splits if_splits sum.splits)

lemma set_build_memory_limit_error:
  "set_build_memory_limit args r = Inl e \<Longrightarrow> e = ValueError"
  by (auto simp: set_build_memory_limit_def int_of_str_def
      split: option.splits if_splits sum.splits)

lemma set_remaining_frame:
  assumes "set_remaining w args r = Inr r'"
  shows "user_id r' = user_id r \<and> dry_run r' = dry_run r \<and> run r' = run r \<and>
         run_cmd r' = run_cmd r \<and> environment r' = arg_environment args \<and>
         (arg_environment args \<noteq> [] \<longrightarrow> run r)"
proof -
  define r2 where "r2 =
    (case arg_subdir args of None \<Rightarrow> r | Some d \<Rightarrow> if d \<noteq> [] then r\<lparr>subdir := d\<rparr> else r)"
  define r3 where "r3 =
    (if arg_cache_from args \<noteq> [] then r2\<lparr>cache_from := arg_cache_from args\<rparr> else r2)"
  define r4 where "r4 =
    (case arg_engine args of None \<Rightarrow> r3 | Some e \<Rightarrow> if e \<noteq> [] then r3\<lparr>engine := e\<rparr> else r3)"
  define r5 where "r5 = r4\<lparr>environment := arg_environment args\<rparr>"
  define r6 where "r6 =
    (if path_exists w (arg_repo args) then r5\<lparr>cleanup_checkout := False\<rparr>
     else r5\<lparr>cleanup_checkout := arg_clean args\<rparr>)"
  define r7 where "r7 =
    (case arg_target_repo_dir args of
       None \<Rightarrow> r6 | Some d \<Rightarrow> if d \<noteq> [] then r6\<lparr>target_repo_dir := d\<rparr> else r6)"
  have unfolded: "set_remaining w args r =
      (if arg_environment args \<noteq> [] \<and> \<not> run r then Inl (SystemExit 1) else Inr r7)"
    unfolding set_remaining_def Let_def r2_def r3_def r4_def r5_def r6_def r7_def ..
  have f2: "user_id r2 = user_id r \<and> dry_run r2 = dry_run r \<and> run r2 = run r \<and> run_cmd r2 = run_cmd r"
    by (simp add: r2_def split: option.splits)
  have f3: "user_id r3 = user_id r2 \<and> dry_run r3 = dry_run r2 \<and> run r3 = run r2 \<and> run_cmd r3 = run_cmd r2"
    by (simp add: r3_def)
  have f4: "user_id r4 = user_id r3 \<and> dry_run r4 = dry_run r3 \<and> run r4 = run r3 \<and> run_cmd r4 = run_cmd r3"
    by (simp add: r4_def split: option.splits)
  have f5: "user_id r5 = user_id r4 \<and> dry_run r5 = dry_run r4 \<and> run r5 = run r4 \<and> run_cmd r5 = run_cmd r4
            \<and> environment r5 = arg_environment args"
    by (simp add: r5_def)
  have f6: "user_id r6 = user_id r5 \<and> dry_run r6 = dry_run r5 \<and> run r6 = run r5 \<and> run_cmd r6 = run_cmd r5
            \<and> environment r6 = environment r5"
    by (simp add: r6_def)
  have f7: "user_id r7 = user_id r6 \<and> dry_run r7 = dry_run r6 \<and> run r7 = run r6 \<and> run_cmd r7 = run_cmd r6
            \<and> environment r7 = environment r6"
    by (simp add: r7_def split: option.splits)
  from assms unfolded have "r' = r7" and "\<not> (arg_environment args \<noteq> [] \<and> \<not> run r)"
    by (simp_all split: if_splits)
  with f2 f3 f4 f5 f6 f7 show ?thesis by auto
qed

lemma make_r2d_stages:
  assumes "make_r2d w argv args = Inr r"
  obtains r1 args' r2 r3 r4 where
    "set_flags w args (set_repository w args) = Inr (r1, args')"
    "set_volumes_and_ports w args' r1 = Inr r2"
    "set_user args' r2 = Inr r3"
    "set_build_memory_limit args' r3 = Inr r4"
    "set_remaining w args' r4 = Inr r"
  using assms
  by (auto simp: make_r2d_def split: if_splits sum.splits prod.splits)

lemma make_r2d_returned:
  assumes "make_r2d w argv args = Inr r"
  shows "dry_run r = (\<not> arg_build args) \<and> run r = (arg_build args \<and> arg_run args) \<and>
         run_cmd r = arg_cmd args \<and> environment r = arg_environment args \<and>
         (dry_run r \<or> user_id r \<noteq> 0) \<and>
         (arg_all_ports args \<longrightarrow> run r) \<and>
         (arg_ports args \<noteq> None \<and> arg_ports args \<noteq> Some [] \<longrightarrow> run r \<and> run_cmd r \<noteq> []) \<and>
         (arg_editable args \<longrightarrow> run r) \<and>
         (arg_environment args \<noteq> [] \<longrightarrow> run r)"
proof -
  from assms obtain r1 args' r2 r3 r4 where
    s1: "set_flags w args (set_repository w args) = Inr (r1, args')" and
    s2: "set_volumes_and_ports w args' r1 = Inr r2" and
    s3: "set_user args' r2 = Inr r3" and
    s4: "set_build_memory_limit args' r3 = Inr r4" and
    s5: "set_remaining w args' r4 = Inr r"
    by (rule make_r2d_stages)
  note f1 = set_flags_returned [OF s1]
  note f2 = set_volumes_and_ports_returned [OF s2]
  note f3 = set_user_returned [OF s3]
  note f4 = set_build_memory_limit_frame [OF s4]
  note f5 = set_remaining_frame [OF s5]
  from f1 f2 f3 f4 f5 show ?thesis by auto
qed

lemma set_volumes_and_ports_rejects:
  assumes "(arg_all_ports args \<or> (arg_ports args \<noteq> None \<and> arg_ports args \<noteq> Some [])) \<and> \<not> run r \<or>
           (arg_ports args \<noteq> None \<and> arg_ports args \<noteq> Some []) \<and> arg_cmd args = []"
  shows "set_volumes_and_ports w args r = Inl (SystemExit 1) \<or>
         set_volumes_and_ports w args r = Inl ValueError"
proof (cases "add_volumes (arg_volumes args) (volumes r)")
  case (Inl e)
  then have "e = ValueError" by (rule add_volumes_error)
  with Inl show ?thesis by (simp add: set_volumes_and_ports_def)
next
  case (Inr vols)
  with assms show ?thesis by (auto simp: set_volumes_and_ports_def Let_def)
qed

lemma set_volumes_and_ports_mounted_rejects:
  "volumes r \<noteq> Map.empty \<Longrightarrow> \<not> run r \<Longrightarrow> set_volumes_and_ports w args r = Inl (SystemExit 1)"
  by (simp add: set_volumes_and_ports_def)

text \<open>
  Publishing ports (\<^verbatim>\<open>-P\<close>, or \<^verbatim>\<open>-p\<close> with at least one port) with the run flag off, or
  \<^verbatim>\<open>-p\<close> without a command, ends \<^verbatim>\<open>make_r2d\<close> with \<^verbatim>\<open>sys.exit(1)\<close>, unless an ill-formed
  volume has raised \<^verbatim>\<open>ValueError\<close> before.
\<close>

theorem make_r2d_ports_need_run_and_command:
  assumes "''--version'' \<notin> set argv"
    and "(arg_all_ports args \<or> (arg_ports args \<noteq> None \<and> arg_ports args \<noteq> Some [])) \<and>
           \<not> (arg_build args \<and> arg_run args) \<or>
         (arg_ports args \<noteq> None \<and> arg_ports args \<noteq> Some []) \<and> arg_cmd args = []"
  shows "make_r2d w argv args = Inl (SystemExit 1) \<or> make_r2d w argv args = Inl ValueError"
proof (cases "set_flags w args (set_repository w args)")
  case (Inl e)
  then have "e = SystemExit 1" by (rule set_flags_error)
  with Inl assms(1) show ?thesis by (simp add: make_r2d_def)
next
  case (Inr p)
  obtain r1 args' where p: "p = (r1, args')" by (cases p)
  note f = set_flags_returned [OF Inr [unfolded p]]
  from f assms(2) have
    "(arg_all_ports args' \<or> (arg_ports args' \<noteq> None \<and> arg_ports args' \<noteq> Some [])) \<and> \<not> run r1 \<or>
     (arg_ports args' \<noteq> None \<and> arg_ports args' \<noteq> Some []) \<and> arg_cmd args' = []"
    by auto
  from set_volumes_and_ports_rejects [OF this, of w]
  show ?thesis using Inr p assms(1) by (auto simp: make_r2d_def)
qed

theorem make_r2d_ports_need_run_and_command_witness:
  "''--version'' \<notin> set [''--no-run'', ''-p'', ''8888'', ''.''] \<and>
   arg_ports ((default_args ''.'')\<lparr>arg_run := False, arg_ports := Some [''8888'']\<rparr>) = Some [''8888''] \<and>
   \<not> arg_run ((default_args ''.'')\<lparr>arg_run := False, arg_ports := Some [''8888'']\<rparr>) \<and>
   make_r2d example_world [''--no-run'', ''-p'', ''8888'', ''.'']
     ((default_args ''.'')\<lparr>arg_run := False, arg_ports := Some [''8888'']\<rparr>) = Inl (SystemExit 1)"
proof -
  let ?argv = "[''--no-run'', ''-p'', ''8888'', ''.'']"
  let ?args = "(default_args ''.'')\<lparr>arg_run := False, arg_ports := Some [''8888'']\<rparr>"
  have h1: "''--version'' \<notin> set ?argv" by simp
  have h2: "(arg_all_ports ?args \<or> (arg_ports ?args \<noteq> None \<and> arg_ports ?args \<noteq> Some [])) \<and>
             \<not> (arg_build ?args \<and> arg_run ?args) \<or>
            (arg_ports ?args \<noteq> None \<and> arg_ports ?args \<noteq> Some []) \<and> arg_cmd ?args = []"
    by simp
  have "make_r2d example_world ?argv ?args \<noteq> Inl ValueError"
    by (simp add: make_r2d_def set_repository_def set_flags_def set_volumes_and_ports_def
        example_world_def example_r2d_def default_args_def add_pairs_def)
  with make_r2d_ports_need_run_and_command [OF h1 h2, of example_world]
  have "make_r2d example_world ?argv ?args = Inl (SystemExit 1)" by blast
  with h1 show ?thesis by simp
qed

text \<open>
  \<^verbatim>\<open>make_r2d\<close> never returns an application object whose user id is 0 outside dry-run
  mode: whenever it returns, the run is dry or the user id is not 0.
\<close>

theorem make_r2d_returns_no_root:
  assumes "make_r2d w argv args = Inr r"
  shows "dry_run r \<or> user_id r \<noteq> 0"
  using make_r2d_returned [OF assms] by blast

theorem make_r2d_returns_no_root_witness:
  "\<not> isl (make_r2d example_world [''.''] (default_args ''.'')) \<and>
   (dry_run (projr (make_r2d example_world [''.''] (default_args ''.''))) \<or>
    user_id (projr (make_r2d example_world [''.''] (default_args ''.''))) \<noteq> 0)"
proof -
  have ok: "\<not> isl (make_r2d example_world [''.''] (default_args ''.''))"
    by (simp add: make_r2d_def set_repository_def set_flags_def set_volumes_and_ports_def
        set_user_def set_build_memory_limit_def set_remaining_def example_world_def example_r2d_def default_args_def
        add_pairs_def)
  then have "make_r2d example_world [''.''] (default_args ''.'') =
      Inr (projr (make_r2d example_world [''.''] (default_args ''.'')))"
    by (cases "make_r2d example_world [''.''] (default_args ''.'')") simp_all
  from make_r2d_returns_no_root [OF this] ok show ?thesis by simp
qed

text \<open>
  The editable mount is covered by the test on the volumes: \<^verbatim>\<open>--editable\<close> with the run
  flag off (by \<^verbatim>\<open>--no-run\<close> or \<^verbatim>\<open>--no-build\<close>) ends \<^verbatim>\<open>make_r2d\<close> with \<^verbatim>\<open>sys.exit(1)\<close>.
\<close>

theorem make_r2d_editable_needs_run:
  assumes "''--version'' \<notin> set argv"
    and "arg_editable args"
    and "\<not> (arg_build args \<and> arg_run args)"
  shows "make_r2d w argv args = Inl (SystemExit 1)"
proof (cases "set_flags w args (set_repository w args)")
  case (Inl e)
  then have "e = SystemExit 1" by (rule set_flags_error)
  with Inl assms(1) show ?thesis by (simp add: make_r2d_def)
next
  case (Inr p)
  obtain r1 args' where p: "p = (r1, args')" by (cases p)
  note f = set_flags_returned [OF Inr [unfolded p]]
  from f assms have "volumes r1 \<noteq> Map.empty" and "\<not> run r1" by auto
  then have "set_volumes_and_ports w args' r1 = Inl (SystemExit 1)"
    by (rule set_volumes_and_ports_mounted_rejects)
  with Inr p assms(1) show ?thesis by (simp add: make_r2d_def)
qed

theorem make_r2d_editable_needs_run_witness:
  "''--version'' \<notin> set [''--no-run'', ''-E'', ''.''] \<and>
   arg_editable ((default_args ''.'')\<lparr>arg_run := False, arg_editable := True\<rparr>) \<and>
   \<not> arg_run ((default_args ''.'')\<lparr>arg_run := False, arg_editable := True\<rparr>) \<and>
   make_r2d example_world [''--no-run'', ''-E'', ''.'']
     ((default_args ''.'')\<lparr>arg_run := False, arg_editable := True\<rparr>) = Inl (SystemExit 1)"
proof -
  let ?argv = "[''--no-run'', ''-E'', ''.'']"
  let ?args = "(default_args ''.'')\<lparr>arg_run := False, arg_editable := True\<rparr>"
  have h1: "''--version'' \<notin> set ?argv" by simp
  have h2: "arg_editable ?args" by simp
  have h3: "\<not> (arg_build ?args \<and> arg_run ?args)" by simp
  from make_r2d_editable_needs_run [OF h1 h2 h3, of example_world] h1 h2
  show ?thesis by simp
qed

text \<open>
  The memory limit: a string of decimal digits becomes an integer; a string that
  \<^verbatim>\<open>isnumeric\<close> accepts and \<^verbatim>\<open>int\<close> does not (here the one character superscript two) raises
  \<^verbatim>\<open>ValueError\<close>.
\<close>

lemma set_build_memory_limit_examples:
  "set_build_memory_limit ((default_args ''.'')\<lparr>arg_build_memory_limit := Some ''512''\<rparr>)
     example_r2d = Inr (example_r2d\<lparr>build_memory_limit := Limit_int 512\<rparr>) \<and>
   set_build_memory_limit ((default_args ''.'')\<lparr>arg_build_memory_limit := Some [CHR 0xB2]\<rparr>)
     example_r2d = Inl ValueError"
  by (simp add: set_build_memory_limit_def default_args_def isnumeric_def is_numeric_char_def
      is_decimal_def int_of_str_def int_of_digits_def)

end
